theory Spec2Isabelle
  imports Main "HOL-Library.AList"
begin

section \<open>Data model\<close>

text \<open>
  The three scripts exchange JSON documents. A Python dict is an association list in
  insertion order: \<open>d[k] = v\<close> is \<^const>\<open>AList.update\<close> (overwrite in place, or
  append a new key), \<open>d.get(k)\<close> is \<^const>\<open>map_of\<close>, \<open>d.keys()\<close> is \<open>map fst\<close>
  and \<open>d.values()\<close> is \<open>map snd\<close>. A value that \<open>dict.get\<close> may return as \<open>None\<close>
  is an \<open>option\<close>. Fields hold values of the type the configuration schema gives
  them (strings, lists of strings, booleans).
\<close>

datatype jval = JNull | JStr string

type_synonym resource = "(string \<times> jval) list"

text \<open>One entry of \<open>resourceMappings\<close>; every field is read with \<open>.get\<close>.\<close>

record mapping_config =
  rule_patterns :: "string list"
  rule_resource_type :: "string option"
  rule_impact_level :: "string option"
  rule_target_stack :: "string option"
  rule_description :: "string option"
  rule_required_actions :: "string list"

text \<open>
  The parts of \<open>change-detection-config.yaml\<close> the scripts read: \<open>exclusions.patterns\<close>,
  \<open>resourceMappings\<close> (in declaration order), the keys of \<open>deploymentChecklist\<close> and
  \<open>cloudFormationConditionMapping\<close>.
\<close>

record config =
  exclusions :: "string list"
  resourceMappings :: "(string \<times> mapping_config) list"
  deploymentChecklist :: "string list"
  cloudFormationConditionMapping :: "string \<rightharpoonup> string"

text \<open>The dictionary \<open>change_metadata\<close> that \<open>run_change_detection\<close> builds.\<close>

record change_metadata =
  change_detection_config :: string
  base_commit :: string
  head_commit :: string
  changed_files_count :: nat
  changed_files :: "string list"
  affected_resources :: "resource list"
  affected_mappings :: "string set"
  deployment_checklist :: "(string \<times> bool) list"
  required_actions :: "string set"
  cloudformation_conditions :: "(string \<times> bool) list"

section \<open>change-detection.py\<close>

text \<open>
  \<open>fnmatch.fnmatch(name, pattern)\<close> belongs to the Python standard library; the
  functions below take it as the parameter \<open>fnmatch\<close>. \<open>glob\<close> is the fragment of
  its pattern language with \<open>*\<close>, \<open>?\<close> and literal characters, used to run the
  detector on concrete inputs.
\<close>

type_synonym matcher = "string \<Rightarrow> string \<Rightarrow> bool"

fun glob_match :: "string \<Rightarrow> string \<Rightarrow> bool" where
  "glob_match [] [] = True"
| "glob_match [] (c # cs) = False"
| "glob_match (p # ps) [] = (p = CHR ''*'' \<and> glob_match ps [])"
| "glob_match (p # ps) (c # cs) =
     (if p = CHR ''*'' then glob_match ps (c # cs) \<or> glob_match (p # ps) cs
      else (p = CHR ''?'' \<or> p = c) \<and> glob_match ps cs)"

definition glob :: matcher where
  "glob name pattern = glob_match pattern name"

definition normalize_path :: "string \<Rightarrow> string" where
  "normalize_path file_path = map (\<lambda>c. if c = CHR 0x5C then CHR ''/'' else c) file_path"

fun is_excluded :: "matcher \<Rightarrow> string \<Rightarrow> string list \<Rightarrow> bool" where
  "is_excluded fnmatch file_path [] = False"
| "is_excluded fnmatch file_path (pattern # rest) =
     (if fnmatch (normalize_path file_path) pattern then True
      else is_excluded fnmatch file_path rest)"

text \<open>The inner loop of \<open>match_file_to_mapping\<close>: stop at the first pattern that matches.\<close>

fun first_pattern_matches :: "matcher \<Rightarrow> string \<Rightarrow> string list \<Rightarrow> bool" where
  "first_pattern_matches fnmatch normalized_path [] = False"
| "first_pattern_matches fnmatch normalized_path (pattern # rest) =
     (if fnmatch normalized_path pattern then True
      else first_pattern_matches fnmatch normalized_path rest)"

fun match_file_to_mapping ::
  "matcher \<Rightarrow> string \<Rightarrow> (string \<times> mapping_config) list \<Rightarrow> (string \<times> mapping_config) list" where
  "match_file_to_mapping fnmatch file_path [] = []"
| "match_file_to_mapping fnmatch file_path ((mapping_key, mapping_config) # rest) =
     (if first_pattern_matches fnmatch (normalize_path file_path) (rule_patterns mapping_config)
      then (mapping_key, mapping_config) # match_file_to_mapping fnmatch file_path rest
      else match_file_to_mapping fnmatch file_path rest)"

definition json_of_opt :: "string option \<Rightarrow> jval" where
  "json_of_opt v = (case v of None \<Rightarrow> JNull | Some s \<Rightarrow> JStr s)"

definition resource_entry :: "string \<Rightarrow> string \<Rightarrow> mapping_config \<Rightarrow> resource" where
  "resource_entry file_path mapping_key mapping_config =
     [(''file'', JStr file_path),
      (''mapping'', JStr mapping_key),
      (''resource_type'', json_of_opt (rule_resource_type mapping_config)),
      (''impact_level'', json_of_opt (rule_impact_level mapping_config)),
      (''target_stack'', json_of_opt (rule_target_stack mapping_config)),
      (''description'', json_of_opt (rule_description mapping_config))]"

text \<open>\<open>for stack_key in checklist.keys(): checklist[stack_key] = True\<close>\<close>

fun set_keys_true :: "string list \<Rightarrow> (string \<times> bool) list \<Rightarrow> (string \<times> bool) list" where
  "set_keys_true [] checklist = checklist"
| "set_keys_true (stack_key # rest) checklist =
     set_keys_true rest (AList.update stack_key True checklist)"

text \<open>
  The \<open>if target_stack == 'all' ... elif target_stack ...\<close> statement; an absent
  (\<open>None\<close>) or empty target stack is falsy and changes nothing.
\<close>

definition update_checklist ::
  "string option \<Rightarrow> (string \<times> bool) list \<Rightarrow> (string \<times> bool) list" where
  "update_checklist target_stack checklist =
     (case target_stack of
        None \<Rightarrow> checklist
      | Some stack \<Rightarrow>
          if stack = ''all'' then set_keys_true (map fst checklist) checklist
          else if stack \<noteq> [] then AList.update stack True checklist
          else checklist)"

text \<open>The body of \<open>for mapping_key, mapping_config in matches\<close>.\<close>

definition apply_match ::
  "string \<Rightarrow> change_metadata \<Rightarrow> string \<times> mapping_config \<Rightarrow> change_metadata" where
  "apply_match file_path md m =
     (case m of (mapping_key, mapping_config) \<Rightarrow>
        md\<lparr>affected_resources :=
              affected_resources md @ [resource_entry file_path mapping_key mapping_config],
           affected_mappings := insert mapping_key (affected_mappings md),
           required_actions := required_actions md \<union> set (rule_required_actions mapping_config),
           deployment_checklist :=
              update_checklist (rule_target_stack mapping_config) (deployment_checklist md)\<rparr>)"

fun apply_matches ::
  "string \<Rightarrow> change_metadata \<Rightarrow> (string \<times> mapping_config) list \<Rightarrow> change_metadata" where
  "apply_matches file_path md [] = md"
| "apply_matches file_path md (m # rest) = apply_matches file_path (apply_match file_path md m) rest"

text \<open>The body of \<open>for file_path in changed_files\<close>.\<close>

definition process_file :: "matcher \<Rightarrow> config \<Rightarrow> change_metadata \<Rightarrow> string \<Rightarrow> change_metadata" where
  "process_file fnmatch cfg md file_path =
     (if is_excluded fnmatch file_path (exclusions cfg) then md
      else apply_matches file_path md
             (match_file_to_mapping fnmatch file_path (resourceMappings cfg)))"

fun process_files :: "matcher \<Rightarrow> config \<Rightarrow> change_metadata \<Rightarrow> string list \<Rightarrow> change_metadata" where
  "process_files fnmatch cfg md [] = md"
| "process_files fnmatch cfg md (file_path # rest) =
     process_files fnmatch cfg (process_file fnmatch cfg md file_path) rest"

text \<open>\<open>{key: False for key in deployment_checklist_config.keys()}\<close>\<close>

fun seed_checklist :: "string list \<Rightarrow> (string \<times> bool) list \<Rightarrow> (string \<times> bool) list" where
  "seed_checklist [] checklist = checklist"
| "seed_checklist (key # rest) checklist = seed_checklist rest (AList.update key False checklist)"

definition initial_metadata ::
  "config \<Rightarrow> string \<Rightarrow> string \<Rightarrow> string \<Rightarrow> string list \<Rightarrow> change_metadata" where
  "initial_metadata cfg config_path base head files =
     \<lparr>change_detection_config = config_path,
      base_commit = base,
      head_commit = head,
      changed_files_count = length files,
      changed_files = files,
      affected_resources = [],
      affected_mappings = {},
      deployment_checklist = seed_checklist (deploymentChecklist cfg) [],
      required_actions = {},
      cloudformation_conditions = []\<rparr>"

text \<open>
  \<open>run_change_detection\<close>, with the loaded configuration and the list returned by
  \<open>get_changed_files\<close> as inputs. The two sets are still sets here; \<open>list(...)\<close>
  turns them into lists in an order Python leaves open.
\<close>

definition run_change_detection ::
  "matcher \<Rightarrow> config \<Rightarrow> string \<Rightarrow> string \<Rightarrow> string \<Rightarrow> string list \<Rightarrow> change_metadata" where
  "run_change_detection fnmatch cfg config_path base head files =
     process_files fnmatch cfg (initial_metadata cfg config_path base head files) files"

section \<open>Documents on disk\<close>

text \<open>
  A metadata JSON file as \<open>json.load\<close> returns it. Every key may be absent
  (\<open>None\<close>); a key that is present holds a value of its schema type.
\<close>

record document =
  doc_change_detection_config :: "string option"
  doc_base_commit :: "string option"
  doc_head_commit :: "string option"
  doc_changed_files_count :: "nat option"
  doc_changed_files :: "string list option"
  doc_affected_resources :: "resource list option"
  doc_affected_mappings :: "string list option"
  doc_deployment_checklist :: "(string \<times> bool) list option"
  doc_required_actions :: "string list option"
  doc_cloudformation_conditions :: "(string \<times> bool) list option"
  doc_metadata_version :: "string option"
  doc_enhanced :: "bool option"
  doc_has_affected_resources :: "bool option"
  doc_has_deployments :: "bool option"
  doc_is_valid :: "bool option"

text \<open>\<open>metadata.get(key, fallback)\<close>\<close>

definition get_or :: "'a option \<Rightarrow> 'a \<Rightarrow> 'a" where
  "get_or v fallback = (case v of None \<Rightarrow> fallback | Some x \<Rightarrow> x)"

text \<open>
  \<open>json.dump\<close> of the detector's dictionary: \<open>mappings\<close> and \<open>actions\<close> are the
  lists that \<open>list(...)\<close> made of the two sets, in whatever order.
\<close>

definition dump_metadata :: "change_metadata \<Rightarrow> string list \<Rightarrow> string list \<Rightarrow> document" where
  "dump_metadata md mappings actions =
     \<lparr>doc_change_detection_config = Some (change_detection_config md),
      doc_base_commit = Some (base_commit md),
      doc_head_commit = Some (head_commit md),
      doc_changed_files_count = Some (changed_files_count md),
      doc_changed_files = Some (changed_files md),
      doc_affected_resources = Some (affected_resources md),
      doc_affected_mappings = Some mappings,
      doc_deployment_checklist = Some (deployment_checklist md),
      doc_required_actions = Some actions,
      doc_cloudformation_conditions = Some (cloudformation_conditions md),
      doc_metadata_version = None,
      doc_enhanced = None,
      doc_has_affected_resources = None,
      doc_has_deployments = None,
      doc_is_valid = None\<rparr>"

definition written_by_detector :: "change_metadata \<Rightarrow> document \<Rightarrow> bool" where
  "written_by_detector md doc =
     (case (doc_affected_mappings doc, doc_required_actions doc) of
        (Some mappings, Some actions) \<Rightarrow>
          distinct mappings \<and> set mappings = affected_mappings md \<and>
          distinct actions \<and> set actions = required_actions md \<and>
          doc = dump_metadata md mappings actions
      | _ \<Rightarrow> False)"

section \<open>prepare-change-meta.py\<close>

text \<open>
  The loop over \<open>deployment_checklist.items()\<close>: \<open>condition_mapping.get(key)\<close> is
  tested for truth, so a missing entry and an empty name both add nothing.
\<close>

fun build_conditions ::
  "(string \<rightharpoonup> string) \<Rightarrow> (string \<times> bool) list \<Rightarrow> (string \<times> bool) list \<Rightarrow> (string \<times> bool) list" where
  "build_conditions condition_mapping [] conditions = conditions"
| "build_conditions condition_mapping ((checklist_key, should_deploy) # rest) conditions =
     build_conditions condition_mapping rest
       (case condition_mapping checklist_key of
          None \<Rightarrow> conditions
        | Some cf_condition \<Rightarrow>
            if cf_condition \<noteq> [] then AList.update cf_condition should_deploy conditions
            else conditions)"

definition composite_conditions ::
  "(string \<times> bool) list \<Rightarrow> (string \<times> bool) list \<Rightarrow> (string \<times> bool) list" where
  "composite_conditions checklist conditions =
     (case map_of checklist ''application'' of
        None \<Rightarrow> conditions
      | Some should_deploy \<Rightarrow> AList.update ''DeployApplicationStack'' should_deploy conditions)"

definition derive_conditions ::
  "(string \<rightharpoonup> string) \<Rightarrow> (string \<times> bool) list \<Rightarrow> (string \<times> bool) list" where
  "derive_conditions condition_mapping checklist =
     composite_conditions checklist (build_conditions condition_mapping checklist [])"

text \<open>\<open>any(deployment_checklist.values())\<close>\<close>

definition any_value :: "(string \<times> bool) list \<Rightarrow> bool" where
  "any_value checklist = list_ex (\<lambda>v. v) (map snd checklist)"

definition prepare_change_metadata :: "document \<Rightarrow> (string \<rightharpoonup> string) \<Rightarrow> document" where
  "prepare_change_metadata metadata condition_mapping =
     (let checklist = get_or (doc_deployment_checklist metadata) [];
          conditions = derive_conditions condition_mapping checklist;
          has_resources = (length (get_or (doc_affected_resources metadata) []) > 0);
          has_deploys = any_value checklist
      in metadata\<lparr>doc_cloudformation_conditions := Some conditions,
                  doc_metadata_version := Some ''2.0'',
                  doc_enhanced := Some True,
                  doc_has_affected_resources := Some has_resources,
                  doc_has_deployments := Some has_deploys,
                  doc_is_valid := Some (has_resources \<and> has_deploys)\<rparr>)"

section \<open>validate-change-impact.py\<close>

text \<open>\<open>str(n)\<close> for the counts that the messages print.\<close>

definition digit_char :: "nat \<Rightarrow> char" where
  "digit_char d = char_of (48 + d)"

fun str_nat :: "nat \<Rightarrow> string" where
  "str_nat n = (if n < 10 then [digit_char n] else str_nat (n div 10) @ [digit_char (n mod 10)])"

text \<open>\<open>resource.get('file', 'unknown')\<close> as the f-string prints it.\<close>

definition file_label :: "resource \<Rightarrow> string" where
  "file_label resource =
     (case map_of resource ''file'' of
        None \<Rightarrow> ''unknown''
      | Some JNull \<Rightarrow> ''None''
      | Some (JStr s) \<Rightarrow> s)"

definition msg_missing_resources :: string where
  "msg_missing_resources = ''Metadata missing '' @ [CHR 0x27] @ ''affected_resources'' @ [CHR 0x27] @ '' field''"

definition msg_missing_checklist :: string where
  "msg_missing_checklist = ''Metadata missing '' @ [CHR 0x27] @ ''deployment_checklist'' @ [CHR 0x27] @ '' field''"

definition msg_no_resources :: "nat \<Rightarrow> string" where
  "msg_no_resources n =
     ''Files changed ('' @ str_nat n @ '') but no affected resources identified. '' @
     ''All changes may have been excluded.''"

definition msg_empty_checklist :: "nat \<Rightarrow> string" where
  "msg_empty_checklist n =
     ''Affected resources identified ('' @ str_nat n @ '') but deployment checklist is empty. '' @
     ''This indicates a configuration error in change-detection-config.yaml''"

definition msg_no_conditions :: string where
  "msg_no_conditions =
     ''Enhanced metadata but no CloudFormation conditions generated. '' @
     ''Template may not conditionally deploy resources.''"

definition msg_resource_missing :: "string \<Rightarrow> resource \<Rightarrow> string" where
  "msg_resource_missing field resource =
     ''Resource missing '' @ [CHR 0x27] @ field @ [CHR 0x27] @ '': '' @ file_label resource"

definition msg_critical :: "nat \<Rightarrow> string" where
  "msg_critical n =
     ''Found '' @ str_nat n @ '' CRITICAL resources but no required actions defined. '' @
     ''Build, test, or deployment steps may be missing.''"

text \<open>Check 1, the two membership tests.\<close>

definition check_fields :: "document \<Rightarrow> string list" where
  "check_fields metadata =
     (if doc_affected_resources metadata = None then [msg_missing_resources] else []) @
     (if doc_deployment_checklist metadata = None then [msg_missing_checklist] else [])"

text \<open>Checks 2 to 4 each take and return the pair \<open>(errors, warnings)\<close>.\<close>

definition check_coverage ::
  "string list \<Rightarrow> resource list \<Rightarrow> string list \<times> string list \<Rightarrow> string list \<times> string list" where
  "check_coverage files resources ew =
     (case ew of (errors, warnings) \<Rightarrow>
        if files \<noteq> [] \<and> length files > 0 then
          (if resources = [] \<or> length resources = 0
           then (errors, warnings @ [msg_no_resources (length files)])
           else (errors, warnings))
        else (errors, warnings))"

definition check_checklist ::
  "resource list \<Rightarrow> (string \<times> bool) list \<Rightarrow> string list \<times> string list \<Rightarrow> string list \<times> string list" where
  "check_checklist resources checklist ew =
     (case ew of (errors, warnings) \<Rightarrow>
        if resources \<noteq> [] \<and> length resources > 0 then
          (if \<not> any_value checklist
           then (errors @ [msg_empty_checklist (length resources)], warnings)
           else (errors, warnings))
        else (errors, warnings))"

definition check_enhanced ::
  "document \<Rightarrow> resource list \<Rightarrow> string list \<times> string list \<Rightarrow> string list \<times> string list" where
  "check_enhanced metadata resources ew =
     (case ew of (errors, warnings) \<Rightarrow>
        if doc_enhanced metadata = Some True then
          (if get_or (doc_cloudformation_conditions metadata) [] = [] \<and> resources \<noteq> []
           then (errors, warnings @ [msg_no_conditions])
           else (errors, warnings))
        else (errors, warnings))"

text \<open>Check 5, the loop over the resources; it only ever appends warnings.\<close>

definition check_resource :: "resource \<Rightarrow> string list \<Rightarrow> string list" where
  "check_resource resource warnings =
     (let warnings1 =
            (if map_of resource ''resource_type'' = None
             then warnings @ [msg_resource_missing ''resource_type'' resource]
             else warnings)
      in if map_of resource ''impact_level'' = None
         then warnings1 @ [msg_resource_missing ''impact_level'' resource]
         else warnings1)"

fun check_resources :: "resource list \<Rightarrow> string list \<Rightarrow> string list" where
  "check_resources [] warnings = warnings"
| "check_resources (resource # rest) warnings = check_resources rest (check_resource resource warnings)"

definition is_critical :: "resource \<Rightarrow> bool" where
  "is_critical r = (map_of r ''impact_level'' = Some (JStr ''CRITICAL''))"

definition check_critical ::
  "resource list \<Rightarrow> string list \<Rightarrow> string list \<times> string list \<Rightarrow> string list \<times> string list" where
  "check_critical resources actions ew =
     (case ew of (errors, warnings) \<Rightarrow>
        let critical_resources = filter is_critical resources
        in if critical_resources \<noteq> [] \<and> actions = []
           then (errors @ [msg_critical (length critical_resources)], warnings)
           else (errors, warnings))"

definition validate_change_impact :: "document \<Rightarrow> bool \<Rightarrow> bool \<times> string list \<times> string list" where
  "validate_change_impact metadata strict =
     (let errors = check_fields metadata; warnings = []
      in if errors \<noteq> [] then (False, errors, warnings)
         else
           let resources = get_or (doc_affected_resources metadata) [];
               checklist = get_or (doc_deployment_checklist metadata) [];
               files = get_or (doc_changed_files metadata) [];
               ew2 = check_coverage files resources (errors, warnings);
               ew3 = check_checklist resources checklist ew2;
               ew4 = check_enhanced metadata resources ew3;
               ew5 = (fst ew4, check_resources resources (snd ew4));
               ew6 = check_critical resources (get_or (doc_required_actions metadata) []) ew5;
               is_valid = (length (fst ew6) = 0 \<and> (\<not> strict \<or> length (snd ew6) = 0))
           in (is_valid, fst ew6, snd ew6))"

section \<open>Example inputs\<close>

definition empty_document :: document where
  "empty_document =
     \<lparr>doc_change_detection_config = None, doc_base_commit = None, doc_head_commit = None,
      doc_changed_files_count = None, doc_changed_files = None, doc_affected_resources = None,
      doc_affected_mappings = None, doc_deployment_checklist = None, doc_required_actions = None,
      doc_cloudformation_conditions = None, doc_metadata_version = None, doc_enhanced = None,
      doc_has_affected_resources = None, doc_has_deployments = None, doc_is_valid = None\<rparr>"

text \<open>Only \<open>README.md\<close> changed and no mapping matched it.\<close>

definition readme_document :: document where
  "readme_document =
     empty_document\<lparr>doc_changed_files := Some [''README.md''],
                    doc_affected_resources := Some [],
                    doc_deployment_checklist := Some [(''infrastructure'', False)]\<rparr>"

text \<open>An enhanced document that lacks the \<open>deployment_checklist\<close> key.\<close>

definition no_checklist_document :: document where
  "no_checklist_document =
     empty_document\<lparr>doc_changed_files := Some [''README.md''],
                    doc_affected_resources := Some [[(''file'', JStr ''README.md'')]],
                    doc_enhanced := Some True\<rparr>"

text \<open>One CRITICAL resource and an empty \<open>required_actions\<close> list.\<close>

definition critical_resource :: resource where
  "critical_resource =
     [(''file'', JStr ''lambda/index.py''), (''mapping'', JStr ''app-lambda''),
      (''resource_type'', JStr ''lambda''), (''impact_level'', JStr ''CRITICAL''),
      (''target_stack'', JStr ''all''), (''description'', JNull)]"

definition critical_document :: document where
  "critical_document =
     empty_document\<lparr>doc_changed_files := Some [''lambda/index.py''],
                    doc_affected_resources := Some [critical_resource],
                    doc_deployment_checklist := Some [(''application'', True)],
                    doc_required_actions := Some []\<rparr>"

text \<open>
  A rule set with two exclusions and three mappings; \<open>database\<close> is a target stack
  that the checklist does not list.
\<close>

definition lambda_rule :: mapping_config where
  "lambda_rule =
     \<lparr>rule_patterns = [''lambda/*.py'', ''lambda/*''],
      rule_resource_type = Some ''lambda'',
      rule_impact_level = Some ''CRITICAL'',
      rule_target_stack = Some ''all'',
      rule_description = None,
      rule_required_actions = [''build'', ''deploy'']\<rparr>"

definition python_rule :: mapping_config where
  "python_rule =
     \<lparr>rule_patterns = [''*.py''],
      rule_resource_type = Some ''source'',
      rule_impact_level = Some ''LOW'',
      rule_target_stack = Some ''application'',
      rule_description = Some ''Python sources'',
      rule_required_actions = [''test'']\<rparr>"

definition schema_rule :: mapping_config where
  "schema_rule =
     \<lparr>rule_patterns = [''db/*.sql''],
      rule_resource_type = None,
      rule_impact_level = None,
      rule_target_stack = Some ''database'',
      rule_description = None,
      rule_required_actions = []\<rparr>"

text \<open>A rule with no target stack.\<close>

definition untargeted_rule :: mapping_config where
  "untargeted_rule =
     \<lparr>rule_patterns = [''*.txt''],
      rule_resource_type = Some ''notes'',
      rule_impact_level = Some ''LOW'',
      rule_target_stack = None,
      rule_description = None,
      rule_required_actions = []\<rparr>"

definition example_config :: config where
  "example_config =
     \<lparr>exclusions = [''*.md'', ''docs/*''],
      resourceMappings =
        [(''app-lambda'', lambda_rule), (''python-sources'', python_rule), (''db-schema'', schema_rule)],
      deploymentChecklist = [''infrastructure'', ''application''],
      cloudFormationConditionMapping = [''infrastructure'' \<mapsto> ''DeployInfrastructure'']\<rparr>"

definition example_run :: "string list \<Rightarrow> change_metadata" where
  "example_run files =
     run_change_detection glob example_config ''config/change-detection-config.yaml''
       ''main'' ''HEAD'' files"

text \<open>The file written after a run on \<open>db/schema.sql\<close>.\<close>

definition schema_dump :: document where
  "schema_dump = dump_metadata (example_run [''db/schema.sql'']) [''db-schema''] []"

text \<open>A condition mapping that gives \<open>infrastructure\<close> the empty name.\<close>

definition blank_name_mapping :: "string \<rightharpoonup> string" where
  "blank_name_mapping = [''infrastructure'' \<mapsto> '''']"

definition infrastructure_document :: document where
  "infrastructure_document =
     empty_document\<lparr>doc_affected_resources := Some [],
                    doc_deployment_checklist := Some [(''infrastructure'', True)]\<rparr>"

section \<open>Properties\<close>

subsection \<open>Validator\<close>

lemma check_resources_append: "check_resources rs ws = ws @ check_resources rs []"
proof (induction rs arbitrary: ws)
  case Nil
  show ?case by simp
next
  case (Cons r rs)
  have "check_resources (r # rs) ws = check_resource r ws @ check_resources rs []"
    using Cons.IH [of "check_resource r ws"] by simp
  moreover have "check_resources (r # rs) [] = check_resource r [] @ check_resources rs []"
    using Cons.IH [of "check_resource r []"] by simp
  moreover have "check_resource r ws = ws @ check_resource r []"
    by (simp add: check_resource_def Let_def)
  ultimately show ?case by simp
qed

text \<open>
  C3. Whatever the document and the strict flag, the verdict that
  \<open>validate_change_impact\<close> returns is true exactly when the returned error list is
  empty and, in strict mode, the returned warning list is empty too. With
  \<open>strict = False\<close> the warnings play no part.
\<close>

theorem validate_verdict:
  "validate_change_impact metadata strict = (ok, errors, warnings) \<Longrightarrow>
     ok = (errors = [] \<and> (\<not> strict \<or> warnings = []))"
  by (auto simp: validate_change_impact_def Let_def split: if_splits)

theorem validate_verdict_witness:
  "validate_change_impact readme_document False = (True, [], [msg_no_resources 1]) \<and>
   validate_change_impact readme_document True = (False, [], [msg_no_resources 1])"
proof -
  have a: "snd (validate_change_impact readme_document False) = ([], [msg_no_resources 1])"
    by (simp add: validate_change_impact_def readme_document_def empty_document_def Let_def
        check_fields_def check_coverage_def check_checklist_def check_enhanced_def
        check_critical_def get_or_def)
  have b: "snd (validate_change_impact readme_document True) = ([], [msg_no_resources 1])"
    by (simp add: validate_change_impact_def readme_document_def empty_document_def Let_def
        check_fields_def check_coverage_def check_checklist_def check_enhanced_def
        check_critical_def get_or_def)
  have "fst (validate_change_impact readme_document False) = True"
    using validate_verdict [of readme_document False
        "fst (validate_change_impact readme_document False)" "[]" "[msg_no_resources 1]"] a
    by (simp add: prod_eq_iff)
  moreover have "fst (validate_change_impact readme_document True) = False"
    using validate_verdict [of readme_document True
        "fst (validate_change_impact readme_document True)" "[]" "[msg_no_resources 1]"] b
    by (simp add: prod_eq_iff)
  ultimately show ?thesis using a b by (simp add: prod_eq_iff)
qed

text \<open>
  C8. When the document lacks \<open>affected_resources\<close> or \<open>deployment_checklist\<close>,
  \<open>validate_change_impact\<close> returns at once: the verdict is false, the errors are the
  structural messages of the missing keys and nothing else, and there are no warnings.
  The result is fixed by which of the two keys are missing, so no later check has a say.
\<close>

theorem validate_structural_gate:
  assumes "doc_affected_resources metadata = None \<or> doc_deployment_checklist metadata = None"
  shows "validate_change_impact metadata strict =
           (False,
            (if doc_affected_resources metadata = None then [msg_missing_resources] else []) @
            (if doc_deployment_checklist metadata = None then [msg_missing_checklist] else []),
            [])"
  using assms by (auto simp: validate_change_impact_def check_fields_def Let_def)

theorem validate_structural_gate_witness:
  "validate_change_impact no_checklist_document True = (False, [msg_missing_checklist], []) \<and>
   validate_change_impact empty_document False =
     (False, [msg_missing_resources, msg_missing_checklist], [])"
  using validate_structural_gate [of no_checklist_document True]
    validate_structural_gate [of empty_document False]
  by (simp add: no_checklist_document_def empty_document_def)

lemma check_resource_prefix:
  "w \<in> set (check_resource r []) \<Longrightarrow> take 2 w = ''Re''"
  by (auto simp: check_resource_def Let_def msg_resource_missing_def split: if_splits)

lemma check_resources_prefix:
  "w \<in> set (check_resources rs []) \<Longrightarrow> take 2 w = ''Re''"
proof (induction rs)
  case Nil
  then show ?case by simp
next
  case (Cons r rs)
  have "check_resources (r # rs) [] = check_resource r [] @ check_resources rs []"
    using check_resources_append [of rs "check_resource r []"] by simp
  with Cons show ?case by (auto dest: check_resource_prefix)
qed

text \<open>Every warning the validator can return is one of three messages.\<close>

lemma validate_warnings_subset:
  assumes "validate_change_impact metadata strict = (ok, errors, warnings)"
  shows "set warnings \<subseteq>
           {msg_no_resources (length (get_or (doc_changed_files metadata) [])), msg_no_conditions} \<union>
           set (check_resources (get_or (doc_affected_resources metadata) []) [])"
  using assms
  by (subst (asm) validate_change_impact_def, subst (asm) check_resources_append)
     (auto simp: Let_def check_coverage_def check_checklist_def
      check_enhanced_def check_critical_def split: if_splits)

lemma validate_warning_prefix:
  assumes "validate_change_impact metadata strict = (ok, errors, warnings)"
    and "w \<in> set warnings"
  shows "take 2 w = ''Fi'' \<or> take 2 w = ''En'' \<or> take 2 w = ''Re''"
  using validate_warnings_subset [OF assms(1)] assms(2)
  by (auto simp: msg_no_resources_def msg_no_conditions_def dest: check_resources_prefix)

lemma msg_critical_prefix: "take 2 (msg_critical n) = ''Fo''"
  by (simp add: msg_critical_def)

text \<open>
  C4. Take a document that has both \<open>affected_resources\<close> and \<open>deployment_checklist\<close>.
  If one of its resources has \<open>impact_level\<close> equal to \<open>CRITICAL\<close> and
  \<open>required_actions\<close> is empty (or absent), the validator's last error is the
  critical-resources message, that message is not among the warnings, and the verdict is
  false whatever the strict flag.
\<close>

theorem critical_without_actions_is_error:
  assumes "doc_affected_resources metadata = Some resources"
    and "doc_deployment_checklist metadata = Some checklist"
    and "r \<in> set resources"
    and "map_of r ''impact_level'' = Some (JStr ''CRITICAL'')"
    and "get_or (doc_required_actions metadata) [] = []"
    and "validate_change_impact metadata strict = (ok, errors, warnings)"
  shows "\<not> ok \<and> errors \<noteq> [] \<and>
         last errors = msg_critical (length (filter is_critical resources)) \<and>
         msg_critical (length (filter is_critical resources)) \<notin> set warnings"
proof -
  have crit: "filter is_critical resources \<noteq> []"
    using assms(3,4) by (auto simp: filter_empty_conv is_critical_def)
  have e: "errors \<noteq> [] \<and> last errors = msg_critical (length (filter is_critical resources))"
    using assms(1,2,5,6) crit
    by (auto simp: validate_change_impact_def Let_def check_fields_def check_coverage_def
        check_checklist_def check_enhanced_def check_critical_def get_or_def split: if_splits)
  have "\<not> ok"
    using assms(1,2,5,6) crit
    by (auto simp: validate_change_impact_def Let_def check_fields_def check_coverage_def
        check_checklist_def check_enhanced_def check_critical_def get_or_def split: if_splits)
  moreover have "msg_critical (length (filter is_critical resources)) \<notin> set warnings"
    using validate_warning_prefix [OF assms(6)] msg_critical_prefix by fastforce
  ultimately show ?thesis using e by simp
qed

theorem critical_without_actions_is_error_witness:
  "\<not> fst (validate_change_impact critical_document False) \<and>
   \<not> fst (validate_change_impact critical_document True) \<and>
   last (fst (snd (validate_change_impact critical_document True))) = msg_critical 1"
proof -
  have "\<not> fst (validate_change_impact critical_document s) \<and>
        last (fst (snd (validate_change_impact critical_document s))) = msg_critical 1" for s
    using critical_without_actions_is_error [of critical_document "[critical_resource]"
        "[(''application'', True)]" critical_resource s
        "fst (validate_change_impact critical_document s)"
        "fst (snd (validate_change_impact critical_document s))"
        "snd (snd (validate_change_impact critical_document s))"]
    by (simp add: critical_document_def empty_document_def critical_resource_def get_or_def
        is_critical_def)
  then show ?thesis by blast
qed

subsection \<open>Detector\<close>

lemma first_pattern_matches_iff:
  "first_pattern_matches fnmatch n ps \<longleftrightarrow> (\<exists>p\<in>set ps. fnmatch n p)"
  by (induction ps) auto

lemma is_excluded_iff:
  "is_excluded fnmatch f ps \<longleftrightarrow> (\<exists>p\<in>set ps. fnmatch (normalize_path f) p)"
  by (induction ps) auto

lemma match_file_to_mapping_filter:
  "match_file_to_mapping fnmatch f ms =
     filter (\<lambda>m. \<exists>p\<in>set (rule_patterns (snd m)). fnmatch (normalize_path f) p) ms"
  by (induction ms) (auto simp: first_pattern_matches_iff)

lemma apply_match_resources:
  "affected_resources (apply_match f md m) =
     affected_resources md @ [resource_entry f (fst m) (snd m)]"
  by (simp add: apply_match_def split: prod.splits)

lemma apply_matches_resources:
  "affected_resources (apply_matches f md ms) =
     affected_resources md @ map (\<lambda>m. resource_entry f (fst m) (snd m)) ms"
  by (induction ms arbitrary: md) (simp_all add: apply_match_resources)

lemma apply_matches_mappings:
  "affected_mappings (apply_matches f md ms) = affected_mappings md \<union> fst ` set ms"
  by (induction ms arbitrary: md) (auto simp: apply_match_def split: prod.splits)

lemma apply_matches_actions:
  "required_actions (apply_matches f md ms) =
     required_actions md \<union> (\<Union>m\<in>set ms. set (rule_required_actions (snd m)))"
  by (induction ms arbitrary: md) (auto simp: apply_match_def split: prod.splits)

lemma process_file_resources:
  "affected_resources (process_file fnmatch cfg md f) =
     affected_resources md @
     (if is_excluded fnmatch f (exclusions cfg) then []
      else map (\<lambda>m. resource_entry f (fst m) (snd m))
             (match_file_to_mapping fnmatch f (resourceMappings cfg)))"
  by (simp add: process_file_def apply_matches_resources)

lemma process_files_resources:
  "affected_resources (process_files fnmatch cfg md files) =
     affected_resources md @
     concat (map (\<lambda>f. map (\<lambda>m. resource_entry f (fst m) (snd m))
                         (match_file_to_mapping fnmatch f (resourceMappings cfg)))
                 (filter (\<lambda>f. \<not> is_excluded fnmatch f (exclusions cfg)) files))"
  by (induction files arbitrary: md) (simp_all add: process_file_resources)

lemma process_files_mappings:
  "affected_mappings (process_files fnmatch cfg md files) =
     affected_mappings md \<union>
     (\<Union>f\<in>{f \<in> set files. \<not> is_excluded fnmatch f (exclusions cfg)}.
        fst ` set (match_file_to_mapping fnmatch f (resourceMappings cfg)))"
  by (induction files arbitrary: md) (auto simp: process_file_def apply_matches_mappings)

lemma process_files_actions:
  "required_actions (process_files fnmatch cfg md files) =
     required_actions md \<union>
     (\<Union>f\<in>{f \<in> set files. \<not> is_excluded fnmatch f (exclusions cfg)}.
        \<Union>m\<in>set (match_file_to_mapping fnmatch f (resourceMappings cfg)).
          set (rule_required_actions (snd m)))"
  by (induction files arbitrary: md) (auto simp: process_file_def apply_matches_actions)

lemma process_files_append:
  "process_files fnmatch cfg md (xs @ ys) =
     process_files fnmatch cfg (process_files fnmatch cfg md xs) ys"
  by (induction xs arbitrary: md) simp_all

lemma process_files_skip_excluded:
  "process_files fnmatch cfg md files =
     process_files fnmatch cfg md (filter (\<lambda>f. \<not> is_excluded fnmatch f (exclusions cfg)) files)"
  by (induction files arbitrary: md) (simp_all add: process_file_def)

lemma file_of_entry: "map_of (resource_entry f k c) ''file'' = Some (JStr f)"
  by (simp add: resource_entry_def)

lemmas example_defs = example_run_def run_change_detection_def initial_metadata_def
  example_config_def lambda_rule_def python_rule_def schema_rule_def process_file_def
  apply_match_def glob_def normalize_path_def update_checklist_def resource_entry_def
  json_of_opt_def

lemma entries_name_kept_files:
  "r \<in> set (affected_resources (run_change_detection fnmatch cfg config_path base head files)) \<Longrightarrow>
     \<exists>f\<in>set files. \<not> is_excluded fnmatch f (exclusions cfg) \<and> map_of r ''file'' = Some (JStr f)"
  unfolding run_change_detection_def process_files_resources
  by (auto simp: initial_metadata_def file_of_entry)

lemma run_over_kept_files:
  "run_change_detection fnmatch cfg config_path base head files =
     process_files fnmatch cfg (initial_metadata cfg config_path base head files)
       (filter (\<lambda>f. \<not> is_excluded fnmatch f (exclusions cfg)) files)"
  unfolding run_change_detection_def by (rule process_files_skip_excluded)

lemma run_mappings:
  "affected_mappings (run_change_detection fnmatch cfg config_path base head files) =
     (\<Union>f\<in>{f \<in> set files. \<not> is_excluded fnmatch f (exclusions cfg)}.
        fst ` set (match_file_to_mapping fnmatch f (resourceMappings cfg)))"
  unfolding run_change_detection_def process_files_mappings
  by (simp add: initial_metadata_def)

lemma run_actions:
  "required_actions (run_change_detection fnmatch cfg config_path base head files) =
     (\<Union>f\<in>{f \<in> set files. \<not> is_excluded fnmatch f (exclusions cfg)}.
        \<Union>m\<in>set (match_file_to_mapping fnmatch f (resourceMappings cfg)).
          set (rule_required_actions (snd m)))"
  unfolding run_change_detection_def process_files_actions
  by (simp add: initial_metadata_def)

lemma run_resources:
  "affected_resources (run_change_detection fnmatch cfg config_path base head files) =
     concat (map (\<lambda>f. map (\<lambda>m. resource_entry f (fst m) (snd m))
                         (match_file_to_mapping fnmatch f (resourceMappings cfg)))
                 (filter (\<lambda>f. \<not> is_excluded fnmatch f (exclusions cfg)) files))"
  by (simp add: run_change_detection_def process_files_resources initial_metadata_def)

text \<open>
  C6. Every \<open>affected_resources\<close> entry of the detector's output names, under
  \<open>file\<close>, an element of the changed-file list that no exclusion pattern matches. A
  file that an exclusion pattern matches leaves the whole dictionary as it was, so the
  output is what the loop produces over the files that are not excluded: the checklist,
  the mappings and the required actions come from those files only.
\<close>

theorem excluded_files_contribute_nothing:
  "(\<forall>r\<in>set (affected_resources (run_change_detection fnmatch cfg config_path base head files)).
      \<exists>f\<in>set files. \<not> is_excluded fnmatch f (exclusions cfg) \<and>
                     map_of r ''file'' = Some (JStr f)) \<and>
   (\<forall>md f. is_excluded fnmatch f (exclusions cfg) \<longrightarrow> process_file fnmatch cfg md f = md) \<and>
   run_change_detection fnmatch cfg config_path base head files =
     process_files fnmatch cfg (initial_metadata cfg config_path base head files)
       (filter (\<lambda>f. \<not> is_excluded fnmatch f (exclusions cfg)) files) \<and>
   affected_mappings (run_change_detection fnmatch cfg config_path base head files) =
     (\<Union>f\<in>{f \<in> set files. \<not> is_excluded fnmatch f (exclusions cfg)}.
        fst ` set (match_file_to_mapping fnmatch f (resourceMappings cfg))) \<and>
   required_actions (run_change_detection fnmatch cfg config_path base head files) =
     (\<Union>f\<in>{f \<in> set files. \<not> is_excluded fnmatch f (exclusions cfg)}.
        \<Union>m\<in>set (match_file_to_mapping fnmatch f (resourceMappings cfg)).
          set (rule_required_actions (snd m)))"
proof (intro conjI)
  show "\<forall>r\<in>set (affected_resources (run_change_detection fnmatch cfg config_path base head files)).
      \<exists>f\<in>set files. \<not> is_excluded fnmatch f (exclusions cfg) \<and>
                     map_of r ''file'' = Some (JStr f)"
    using entries_name_kept_files by blast
  show "\<forall>md f. is_excluded fnmatch f (exclusions cfg) \<longrightarrow> process_file fnmatch cfg md f = md"
    by (simp add: process_file_def)
qed (rule run_over_kept_files run_mappings run_actions)+

theorem excluded_files_contribute_nothing_witness:
  "is_excluded glob ''README.md'' (exclusions example_config) \<and>
   \<not> is_excluded glob ''lambda/index.py'' (exclusions example_config) \<and>
   map (\<lambda>r. map_of r ''file'') (affected_resources (example_run [''README.md'', ''lambda/index.py''])) =
     [Some (JStr ''lambda/index.py''), Some (JStr ''lambda/index.py'')] \<and>
   example_run [''README.md'', ''lambda/index.py''] =
     process_files glob example_config
       (initial_metadata example_config ''config/change-detection-config.yaml'' ''main'' ''HEAD''
          [''README.md'', ''lambda/index.py''])
       [''lambda/index.py'']"
proof -
  have x: "is_excluded glob ''README.md'' (exclusions example_config)"
    "\<not> is_excluded glob ''lambda/index.py'' (exclusions example_config)"
    by (simp_all add: example_config_def glob_def normalize_path_def)
  have "example_run [''README.md'', ''lambda/index.py''] =
     process_files glob example_config
       (initial_metadata example_config ''config/change-detection-config.yaml'' ''main'' ''HEAD''
          [''README.md'', ''lambda/index.py''])
       (filter (\<lambda>f. \<not> is_excluded glob f (exclusions example_config))
          [''README.md'', ''lambda/index.py''])"
    unfolding example_run_def
    using excluded_files_contribute_nothing [where fnmatch = glob and cfg = example_config
        and files = "[''README.md'', ''lambda/index.py'']"]
    by blast
  moreover have "map (\<lambda>r. map_of r ''file'')
      (affected_resources (example_run [''README.md'', ''lambda/index.py''])) =
     [Some (JStr ''lambda/index.py''), Some (JStr ''lambda/index.py'')]"
    by (simp add: example_defs)
  ultimately show ?thesis using x by simp
qed

text \<open>
  C7. A mapping is among the matches of a file exactly when it is one of the rule set's
  mappings and at least one of its patterns matches the normalised path; the matches are
  the mappings filtered by that test, in declaration order, so a mapping with several
  matching patterns still occurs once. For a file that is not excluded the loop body
  appends one entry per match, and the whole run yields, file by file, one entry per
  pair of a non-excluded file and a mapping that matches it.
\<close>

theorem one_entry_per_matching_mapping:
  "((key, rule) \<in> set (match_file_to_mapping fnmatch f (resourceMappings cfg)) \<longleftrightarrow>
      (key, rule) \<in> set (resourceMappings cfg) \<and>
      (\<exists>p\<in>set (rule_patterns rule). fnmatch (normalize_path f) p)) \<and>
   match_file_to_mapping fnmatch f (resourceMappings cfg) =
     filter (\<lambda>m. \<exists>p\<in>set (rule_patterns (snd m)). fnmatch (normalize_path f) p)
       (resourceMappings cfg) \<and>
   (\<not> is_excluded fnmatch f (exclusions cfg) \<longrightarrow>
      affected_resources (process_file fnmatch cfg md f) =
        affected_resources md @
        map (\<lambda>m. resource_entry f (fst m) (snd m))
          (filter (\<lambda>m. \<exists>p\<in>set (rule_patterns (snd m)). fnmatch (normalize_path f) p)
             (resourceMappings cfg))) \<and>
   (\<not> is_excluded fnmatch f (exclusions cfg) \<longrightarrow>
      length (affected_resources (process_file fnmatch cfg md f)) =
        length (affected_resources md) +
        length (filter (\<lambda>m. \<exists>p\<in>set (rule_patterns (snd m)). fnmatch (normalize_path f) p)
                  (resourceMappings cfg))) \<and>
   affected_resources (run_change_detection fnmatch cfg config_path base head files) =
     concat (map (\<lambda>g. map (\<lambda>m. resource_entry g (fst m) (snd m))
                         (filter (\<lambda>m. \<exists>p\<in>set (rule_patterns (snd m)). fnmatch (normalize_path g) p)
                            (resourceMappings cfg)))
                 (filter (\<lambda>g. \<not> is_excluded fnmatch g (exclusions cfg)) files))"
proof (intro conjI)
  show "(key, rule) \<in> set (match_file_to_mapping fnmatch f (resourceMappings cfg)) \<longleftrightarrow>
      (key, rule) \<in> set (resourceMappings cfg) \<and>
      (\<exists>p\<in>set (rule_patterns rule). fnmatch (normalize_path f) p)"
    by (auto simp: match_file_to_mapping_filter)
  show "match_file_to_mapping fnmatch f (resourceMappings cfg) =
     filter (\<lambda>m. \<exists>p\<in>set (rule_patterns (snd m)). fnmatch (normalize_path f) p)
       (resourceMappings cfg)"
    by (rule match_file_to_mapping_filter)
  show "\<not> is_excluded fnmatch f (exclusions cfg) \<longrightarrow>
      affected_resources (process_file fnmatch cfg md f) =
        affected_resources md @
        map (\<lambda>m. resource_entry f (fst m) (snd m))
          (filter (\<lambda>m. \<exists>p\<in>set (rule_patterns (snd m)). fnmatch (normalize_path f) p)
             (resourceMappings cfg))"
    by (simp add: process_file_resources match_file_to_mapping_filter)
  show "\<not> is_excluded fnmatch f (exclusions cfg) \<longrightarrow>
      length (affected_resources (process_file fnmatch cfg md f)) =
        length (affected_resources md) +
        length (filter (\<lambda>m. \<exists>p\<in>set (rule_patterns (snd m)). fnmatch (normalize_path f) p)
                  (resourceMappings cfg))"
    by (simp add: process_file_resources match_file_to_mapping_filter)
  show "affected_resources (run_change_detection fnmatch cfg config_path base head files) =
     concat (map (\<lambda>g. map (\<lambda>m. resource_entry g (fst m) (snd m))
                         (filter (\<lambda>m. \<exists>p\<in>set (rule_patterns (snd m)). fnmatch (normalize_path g) p)
                            (resourceMappings cfg)))
                 (filter (\<lambda>g. \<not> is_excluded fnmatch g (exclusions cfg)) files))"
    by (simp add: run_resources match_file_to_mapping_filter)
qed

theorem one_entry_per_matching_mapping_witness:
  "\<not> is_excluded glob ''lambda/index.py'' (exclusions example_config) \<and>
   glob ''lambda/index.py'' ''lambda/*.py'' \<and> glob ''lambda/index.py'' ''lambda/*'' \<and>
   match_file_to_mapping glob ''lambda/index.py'' (resourceMappings example_config) =
     [(''app-lambda'', lambda_rule), (''python-sources'', python_rule)] \<and>
   length (affected_resources (process_file glob example_config
      (initial_metadata example_config [] [] [] [''lambda/index.py'']) ''lambda/index.py'')) = 2"
proof -
  have x: "\<not> is_excluded glob ''lambda/index.py'' (exclusions example_config)"
    by (simp add: example_config_def glob_def normalize_path_def)
  have g: "glob ''lambda/index.py'' ''lambda/*.py''" "glob ''lambda/index.py'' ''lambda/*''"
    by (simp_all add: glob_def)
  have h: "filter (\<lambda>m. \<exists>p\<in>set (rule_patterns (snd m)). glob (normalize_path ''lambda/index.py'') p)
             (resourceMappings example_config) =
           [(''app-lambda'', lambda_rule), (''python-sources'', python_rule)]"
    by (simp add: example_config_def lambda_rule_def python_rule_def schema_rule_def glob_def
        normalize_path_def)
  show ?thesis
    using one_entry_per_matching_mapping [where fnmatch = glob and f = "''lambda/index.py''"
        and cfg = example_config
        and md = "initial_metadata example_config [] [] [] [''lambda/index.py'']"]
      x g h
    by (simp add: initial_metadata_def)
qed

lemma set_update_subset: "set (AList.update k v al) \<subseteq> insert (k, v) (set al)"
  by (induction al) auto

lemma seed_checklist_values:
  "\<forall>p\<in>set acc. \<not> snd p \<Longrightarrow> \<forall>p\<in>set (seed_checklist ks acc). \<not> snd p"
proof (induction ks arbitrary: acc)
  case Nil
  then show ?case by simp
next
  case (Cons k ks)
  have "\<forall>p\<in>set (AList.update k False acc). \<not> snd p"
    using Cons.prems set_update_subset [of k False acc] by auto
  then show ?case using Cons.IH by simp
qed

lemma seed_checklist_keys:
  "fst ` set (seed_checklist ks acc) = set ks \<union> fst ` set acc"
  by (induction ks arbitrary: acc) (auto simp: dom_update)

lemma seed_checklist_distinct:
  "distinct (map fst acc) \<Longrightarrow> distinct (map fst (seed_checklist ks acc))"
  by (induction ks arbitrary: acc) (simp_all add: distinct_update)

lemma set_keys_true_map_of:
  "map_of (set_keys_true ks dc) k = (if k \<in> set ks then Some True else map_of dc k)"
  by (induction ks arbitrary: dc) (auto simp: update_conv')

lemma set_keys_true_keys:
  "set ks \<subseteq> fst ` set dc \<Longrightarrow> map fst (set_keys_true ks dc) = map fst dc"
proof (induction ks arbitrary: dc)
  case Nil
  show ?case by simp
next
  case (Cons k ks)
  have "map fst (AList.update k True dc) = map fst dc"
    using Cons.prems by (simp add: update_keys)
  moreover have "set ks \<subseteq> fst ` set (AList.update k True dc)"
    using Cons.prems by (auto simp: dom_update)
  ultimately show ?case using Cons.IH [of "AList.update k True dc"] by simp
qed

lemma update_checklist_keeps_true:
  "map_of dc k = Some True \<Longrightarrow> map_of (update_checklist t dc) k = Some True"
  by (auto simp: update_checklist_def set_keys_true_map_of update_conv' split: option.splits)

lemma update_checklist_all:
  "k \<in> fst ` set dc \<Longrightarrow> map_of (update_checklist (Some ''all'') dc) k = Some True"
  by (auto simp: update_checklist_def set_keys_true_map_of)

lemma update_checklist_all_keys:
  "map fst (update_checklist (Some ''all'') dc) = map fst dc"
  by (simp add: update_checklist_def set_keys_true_keys)

lemma apply_match_checklist:
  "deployment_checklist (apply_match f md m) =
     update_checklist (rule_target_stack (snd m)) (deployment_checklist md)"
  by (simp add: apply_match_def split: prod.splits)

lemma apply_matches_keeps_true:
  "map_of (deployment_checklist md) k = Some True \<Longrightarrow>
     map_of (deployment_checklist (apply_matches f md ms)) k = Some True"
  by (induction ms arbitrary: md) (simp_all add: apply_match_checklist update_checklist_keeps_true)

lemma process_files_keeps_true:
  "map_of (deployment_checklist md) k = Some True \<Longrightarrow>
     map_of (deployment_checklist (process_files fnmatch cfg md files)) k = Some True"
  by (induction files arbitrary: md) (simp_all add: process_file_def apply_matches_keeps_true)

text \<open>
  C5. The checklist starts with every value false. A match whose target stack is
  \<open>all\<close> leaves the keys as they are and makes the value of each of them true. A value
  that is true stays true through every later match and through every later file of the
  same run, so what an \<open>all\<close> match has set is never unset.
\<close>

theorem checklist_monotone:
  "(\<forall>p\<in>set (deployment_checklist (initial_metadata cfg config_path base head files)). \<not> snd p) \<and>
   (rule_target_stack rule = Some ''all'' \<longrightarrow>
      map fst (deployment_checklist (apply_match f md (key, rule))) =
        map fst (deployment_checklist md) \<and>
      (\<forall>k\<in>fst ` set (deployment_checklist md).
         map_of (deployment_checklist (apply_match f md (key, rule))) k = Some True)) \<and>
   (map_of (deployment_checklist md) k = Some True \<longrightarrow>
      map_of (deployment_checklist (apply_match f md m)) k = Some True) \<and>
   (map_of (deployment_checklist md) k = Some True \<longrightarrow>
      map_of (deployment_checklist (process_files fnmatch cfg md later)) k = Some True) \<and>
   (map_of (deployment_checklist
       (process_files fnmatch cfg (initial_metadata cfg config_path base head (earlier @ later))
          earlier)) k = Some True \<longrightarrow>
      map_of (deployment_checklist
        (run_change_detection fnmatch cfg config_path base head (earlier @ later))) k = Some True)"
proof (intro conjI)
  show "\<forall>p\<in>set (deployment_checklist (initial_metadata cfg config_path base head files)). \<not> snd p"
    using seed_checklist_values [of "[]" "deploymentChecklist cfg"]
    by (simp add: initial_metadata_def)
  show "rule_target_stack rule = Some ''all'' \<longrightarrow>
      map fst (deployment_checklist (apply_match f md (key, rule))) =
        map fst (deployment_checklist md) \<and>
      (\<forall>k\<in>fst ` set (deployment_checklist md).
         map_of (deployment_checklist (apply_match f md (key, rule))) k = Some True)"
    using update_checklist_all [of _ "deployment_checklist md"]
    by (simp add: apply_match_checklist update_checklist_all_keys)
  show "map_of (deployment_checklist md) k = Some True \<longrightarrow>
      map_of (deployment_checklist (apply_match f md m)) k = Some True"
    by (simp add: apply_match_checklist update_checklist_keeps_true)
  show "map_of (deployment_checklist md) k = Some True \<longrightarrow>
      map_of (deployment_checklist (process_files fnmatch cfg md later)) k = Some True"
    by (simp add: process_files_keeps_true)
  show "map_of (deployment_checklist
       (process_files fnmatch cfg (initial_metadata cfg config_path base head (earlier @ later))
          earlier)) k = Some True \<longrightarrow>
      map_of (deployment_checklist
        (run_change_detection fnmatch cfg config_path base head (earlier @ later))) k = Some True"
    by (simp add: run_change_detection_def process_files_append process_files_keeps_true)
qed

theorem checklist_monotone_witness:
  "deployment_checklist (example_run []) = [(''infrastructure'', False), (''application'', False)] \<and>
   deployment_checklist (example_run [''lambda/index.py'']) =
     [(''infrastructure'', True), (''application'', True)] \<and>
   map_of (deployment_checklist (example_run [''lambda/index.py'', ''db/schema.sql'']))
     ''infrastructure'' = Some True"
proof -
  have a: "deployment_checklist (example_run []) =
      [(''infrastructure'', False), (''application'', False)]"
    by (simp add: example_defs)
  have b: "deployment_checklist (example_run [''lambda/index.py'']) =
      [(''infrastructure'', True), (''application'', True)]"
    by (simp add: example_defs)
  have "map_of (deployment_checklist
          (process_files glob example_config
             (initial_metadata example_config ''config/change-detection-config.yaml'' ''main''
                ''HEAD'' ([''lambda/index.py''] @ [''db/schema.sql'']))
             [''lambda/index.py''])) ''infrastructure'' = Some True"
    by (simp add: example_defs)
  then have "map_of (deployment_checklist
        (run_change_detection glob example_config ''config/change-detection-config.yaml'' ''main''
           ''HEAD'' ([''lambda/index.py''] @ [''db/schema.sql''])))
        ''infrastructure'' = Some True"
    using checklist_monotone [where fnmatch = glob and cfg = example_config
        and earlier = "[''lambda/index.py'']" and later = "[''db/schema.sql'']"
        and k = "''infrastructure''"]
    by blast
  then show ?thesis using a b by (simp add: example_run_def)
qed

lemma update_checklist_keys:
  "fst ` set (update_checklist t dc) =
     fst ` set dc \<union> {s. t = Some s \<and> s \<noteq> [] \<and> s \<noteq> ''all''}"
proof (cases t)
  case None
  then show ?thesis by (simp add: update_checklist_def)
next
  case (Some s)
  have "fst ` set (set_keys_true (map fst dc) dc) = fst ` set dc"
    using set_keys_true_keys [of "map fst dc" dc] by (metis order_refl set_map)
  with Some show ?thesis by (auto simp: update_checklist_def dom_update)
qed

lemma update_checklist_distinct:
  "distinct (map fst dc) \<Longrightarrow> distinct (map fst (update_checklist t dc))"
  by (auto simp: update_checklist_def set_keys_true_keys distinct_update split: option.splits)

lemma apply_matches_keys:
  "fst ` set (deployment_checklist (apply_matches f md ms)) =
     fst ` set (deployment_checklist md) \<union>
     {s. s \<noteq> [] \<and> s \<noteq> ''all'' \<and> (\<exists>m\<in>set ms. rule_target_stack (snd m) = Some s)}"
  by (induction ms arbitrary: md) (auto simp: apply_match_checklist update_checklist_keys)

lemma apply_matches_distinct:
  "distinct (map fst (deployment_checklist md)) \<Longrightarrow>
     distinct (map fst (deployment_checklist (apply_matches f md ms)))"
  by (induction ms arbitrary: md) (simp_all add: apply_match_checklist update_checklist_distinct)

lemma process_files_keys:
  "fst ` set (deployment_checklist (process_files fnmatch cfg md files)) =
     fst ` set (deployment_checklist md) \<union>
     {s. s \<noteq> [] \<and> s \<noteq> ''all'' \<and>
         (\<exists>f\<in>set files. \<not> is_excluded fnmatch f (exclusions cfg) \<and>
            (\<exists>m\<in>set (match_file_to_mapping fnmatch f (resourceMappings cfg)).
               rule_target_stack (snd m) = Some s))}"
  by (induction files arbitrary: md) (auto simp: process_file_def apply_matches_keys)

lemma process_files_distinct:
  "distinct (map fst (deployment_checklist md)) \<Longrightarrow>
     distinct (map fst (deployment_checklist (process_files fnmatch cfg md files)))"
  by (induction files arbitrary: md) (simp_all add: process_file_def apply_matches_distinct)

text \<open>
  C1, as the code has it. The keys of the output checklist are the keys of the rule
  set's \<open>deploymentChecklist\<close> together with every non-empty target stack other than
  \<open>all\<close> of a mapping that matched a non-excluded file; they are pairwise distinct. No
  match removes a key. A match whose target stack is such a name assigns true to that
  key and does nothing else to the checklist, so the key is added when the checklist did
  not have it. A match whose target stack is absent or empty leaves the checklist as it
  was.
\<close>

theorem checklist_keys:
  "fst ` set (deployment_checklist (run_change_detection fnmatch cfg config_path base head files)) =
     set (deploymentChecklist cfg) \<union>
     {s. s \<noteq> [] \<and> s \<noteq> ''all'' \<and>
         (\<exists>f\<in>set files. \<not> is_excluded fnmatch f (exclusions cfg) \<and>
            (\<exists>m\<in>set (match_file_to_mapping fnmatch f (resourceMappings cfg)).
               rule_target_stack (snd m) = Some s))} \<and>
   distinct (map fst
     (deployment_checklist (run_change_detection fnmatch cfg config_path base head files))) \<and>
   fst ` set (deployment_checklist md) \<subseteq> fst ` set (deployment_checklist (apply_match f md m)) \<and>
   (rule_target_stack (snd m) = Some s \<and> s \<noteq> [] \<and> s \<noteq> ''all'' \<longrightarrow>
      map_of (deployment_checklist (apply_match f md m)) s = Some True) \<and>
   (rule_target_stack (snd m) = Some s \<and> s \<noteq> [] \<and> s \<noteq> ''all'' \<longrightarrow>
      deployment_checklist (apply_match f md m) = AList.update s True (deployment_checklist md)) \<and>
   (rule_target_stack (snd m) = None \<or> rule_target_stack (snd m) = Some [] \<longrightarrow>
      deployment_checklist (apply_match f md m) = deployment_checklist md)"
proof (intro conjI)
  show "fst ` set (deployment_checklist
          (run_change_detection fnmatch cfg config_path base head files)) =
     set (deploymentChecklist cfg) \<union>
     {s. s \<noteq> [] \<and> s \<noteq> ''all'' \<and>
         (\<exists>f\<in>set files. \<not> is_excluded fnmatch f (exclusions cfg) \<and>
            (\<exists>m\<in>set (match_file_to_mapping fnmatch f (resourceMappings cfg)).
               rule_target_stack (snd m) = Some s))}"
    unfolding run_change_detection_def process_files_keys
    by (simp add: initial_metadata_def seed_checklist_keys)
  show "distinct (map fst
     (deployment_checklist (run_change_detection fnmatch cfg config_path base head files)))"
    unfolding run_change_detection_def
    by (rule process_files_distinct) (simp add: initial_metadata_def seed_checklist_distinct)
  show "fst ` set (deployment_checklist md) \<subseteq> fst ` set (deployment_checklist (apply_match f md m))"
    by (simp add: apply_match_checklist update_checklist_keys)
  show "rule_target_stack (snd m) = Some s \<and> s \<noteq> [] \<and> s \<noteq> ''all'' \<longrightarrow>
      map_of (deployment_checklist (apply_match f md m)) s = Some True"
    by (simp add: apply_match_checklist update_checklist_def update_conv')
  show "rule_target_stack (snd m) = Some s \<and> s \<noteq> [] \<and> s \<noteq> ''all'' \<longrightarrow>
      deployment_checklist (apply_match f md m) = AList.update s True (deployment_checklist md)"
    by (simp add: apply_match_checklist update_checklist_def)
  show "rule_target_stack (snd m) = None \<or> rule_target_stack (snd m) = Some [] \<longrightarrow>
      deployment_checklist (apply_match f md m) = deployment_checklist md"
    by (auto simp: apply_match_checklist update_checklist_def)
qed

theorem checklist_keys_witness:
  "fst ` set (deployment_checklist (example_run [''db/schema.sql''])) =
     {''infrastructure'', ''application'', ''database''} \<and>
   match_file_to_mapping glob ''db/schema.sql'' (resourceMappings example_config) =
     [(''db-schema'', schema_rule)] \<and>
   rule_target_stack schema_rule = Some ''database'' \<and>
   deployment_checklist (apply_match ''db/schema.sql'' (example_run []) (''db-schema'', schema_rule)) =
     [(''infrastructure'', False), (''application'', False), (''database'', True)] \<and>
   rule_target_stack untargeted_rule = None \<and>
   deployment_checklist (apply_match ''notes.txt'' (example_run []) (''notes'', untargeted_rule)) =
     [(''infrastructure'', False), (''application'', False)]"
proof -
  have e: "deployment_checklist (example_run []) =
      [(''infrastructure'', False), (''application'', False)]"
    by (simp add: example_defs)
  have u: "rule_target_stack untargeted_rule = None"
    by (simp add: untargeted_rule_def)
  have n: "deployment_checklist (apply_match ''notes.txt'' (example_run []) (''notes'', untargeted_rule)) =
      [(''infrastructure'', False), (''application'', False)]"
    using checklist_keys [where m = "(''notes'', untargeted_rule)" and md = "example_run []"
        and f = "''notes.txt''"] u e
    by simp
  have d: "deployment_checklist (apply_match ''db/schema.sql'' (example_run [])
        (''db-schema'', schema_rule)) =
      [(''infrastructure'', False), (''application'', False), (''database'', True)]"
    using checklist_keys [where m = "(''db-schema'', schema_rule)" and md = "example_run []"
        and f = "''db/schema.sql''" and s = "''database''"] e
    by (simp add: schema_rule_def)
  have m: "match_file_to_mapping glob ''db/schema.sql'' (resourceMappings example_config) =
     [(''db-schema'', schema_rule)]"
    by (simp add: example_config_def lambda_rule_def python_rule_def schema_rule_def glob_def
        normalize_path_def)
  have x: "\<not> is_excluded glob ''db/schema.sql'' (exclusions example_config)"
    by (simp add: example_config_def glob_def normalize_path_def)
  have t: "rule_target_stack schema_rule = Some ''database''"
    by (simp add: schema_rule_def)
  have k: "set (deploymentChecklist example_config) = {''infrastructure'', ''application''}"
    by (simp add: example_config_def)
  have "fst ` set (deployment_checklist (example_run [''db/schema.sql''])) =
     set (deploymentChecklist example_config) \<union>
     {s. s \<noteq> [] \<and> s \<noteq> ''all'' \<and>
         (\<exists>f\<in>set [''db/schema.sql'']. \<not> is_excluded glob f (exclusions example_config) \<and>
            (\<exists>m\<in>set (match_file_to_mapping glob f (resourceMappings example_config)).
               rule_target_stack (snd m) = Some s))}"
    unfolding example_run_def
    using checklist_keys [where fnmatch = glob and cfg = example_config
        and files = "[''db/schema.sql'']"]
    by blast
  also have "{s. s \<noteq> [] \<and> s \<noteq> ''all'' \<and>
         (\<exists>f\<in>set [''db/schema.sql'']. \<not> is_excluded glob f (exclusions example_config) \<and>
            (\<exists>m\<in>set (match_file_to_mapping glob f (resourceMappings example_config)).
               rule_target_stack (snd m) = Some s))} = {''database''}"
    by (simp add: m x t) auto
  finally have "fst ` set (deployment_checklist (example_run [''db/schema.sql''])) =
      {''infrastructure'', ''application'', ''database''}"
    using k by auto
  with m t u n d show ?thesis by blast
qed

text \<open>
  The claim C1 as it is written fails on this input: \<open>db/schema.sql\<close> matches a mapping
  whose target stack \<open>database\<close> is not a key of \<open>deploymentChecklist\<close>, and the
  output checklist has the key \<open>database\<close>.
\<close>

theorem checklist_keys_counterexample:
  "deployment_checklist (example_run [''db/schema.sql'']) =
     [(''infrastructure'', False), (''application'', False), (''database'', True)] \<and>
   deploymentChecklist example_config = [''infrastructure'', ''application''] \<and>
   set (map fst (deployment_checklist (example_run [''db/schema.sql'']))) \<noteq>
     set (deploymentChecklist example_config)"
proof -
  have a: "deployment_checklist (example_run [''db/schema.sql'']) =
     [(''infrastructure'', False), (''application'', False), (''database'', True)]"
    by (simp add: example_defs)
  have b: "deploymentChecklist example_config = [''infrastructure'', ''application'']"
    by (simp add: example_config_def)
  have "''database'' \<in> set (map fst (deployment_checklist (example_run [''db/schema.sql''])))"
    by (simp add: a)
  moreover have "''database'' \<notin> set (deploymentChecklist example_config)"
    by (simp add: b)
  ultimately have "set (map fst (deployment_checklist (example_run [''db/schema.sql'']))) \<noteq>
     set (deploymentChecklist example_config)"
    by blast
  with a b show ?thesis by blast
qed

subsection \<open>Detector output under the validator\<close>

lemma check_resources_complete:
  "\<forall>r\<in>set rs. map_of r ''resource_type'' \<noteq> None \<and> map_of r ''impact_level'' \<noteq> None \<Longrightarrow>
     check_resources rs ws = ws"
  by (induction rs arbitrary: ws) (auto simp: check_resource_def Let_def)

lemma resource_entry_keys:
  "map fst (resource_entry f key rule) =
     [''file'', ''mapping'', ''resource_type'', ''impact_level'', ''target_stack'', ''description'']"
  by (simp add: resource_entry_def)

lemma run_entries:
  "r \<in> set (affected_resources (run_change_detection fnmatch cfg config_path base head files)) \<Longrightarrow>
     \<exists>f key rule. r = resource_entry f key rule"
  unfolding run_resources by auto

lemma written_resources:
  "written_by_detector md doc \<Longrightarrow> doc_affected_resources doc = Some (affected_resources md)"
  by (auto simp: written_by_detector_def dump_metadata_def split: option.splits)

lemma prepare_keeps_resources:
  "doc_affected_resources (prepare_change_metadata doc cm) = doc_affected_resources doc"
  by (simp add: prepare_change_metadata_def Let_def)

lemma no_missing_warning:
  assumes "\<forall>r\<in>set (get_or (doc_affected_resources doc) []).
             map_of r ''resource_type'' \<noteq> None \<and> map_of r ''impact_level'' \<noteq> None"
    and "w \<in> set (snd (snd (validate_change_impact doc strict)))"
  shows "take 16 w \<noteq> ''Resource missing''"
proof -
  have "check_resources (get_or (doc_affected_resources doc) []) [] = []"
    using assms(1) by (rule check_resources_complete)
  then have "w = msg_no_resources (length (get_or (doc_changed_files doc) [])) \<or>
             w = msg_no_conditions"
    using validate_warnings_subset [of doc strict "fst (validate_change_impact doc strict)"
        "fst (snd (validate_change_impact doc strict))"
        "snd (snd (validate_change_impact doc strict))"] assms(2)
    by auto
  then show ?thesis
    by (auto simp: msg_no_resources_def msg_no_conditions_def)
qed

text \<open>
  C10. Every \<open>affected_resources\<close> entry of the detector's output has the six keys
  \<open>file\<close>, \<open>mapping\<close>, \<open>resource_type\<close>, \<open>impact_level\<close>, \<open>target_stack\<close> and
  \<open>description\<close>; a field the mapping rule lacks is present with the value null. So
  on a document written from the detector's output, and on that document after
  \<open>prepare_change_metadata\<close>, the validator's loop over the resources adds nothing and
  no returned warning starts with \<open>Resource missing\<close>.
\<close>

theorem detector_entries_complete:
  "(\<forall>r\<in>set (affected_resources (run_change_detection fnmatch cfg config_path base head files)).
      map fst r =
        [''file'', ''mapping'', ''resource_type'', ''impact_level'', ''target_stack'',
         ''description'']) \<and>
   (rule_resource_type rule = None \<longrightarrow>
      map_of (resource_entry f key rule) ''resource_type'' = Some JNull) \<and>
   (rule_impact_level rule = None \<longrightarrow>
      map_of (resource_entry f key rule) ''impact_level'' = Some JNull) \<and>
   (rule_target_stack rule = None \<longrightarrow>
      map_of (resource_entry f key rule) ''target_stack'' = Some JNull) \<and>
   (rule_description rule = None \<longrightarrow>
      map_of (resource_entry f key rule) ''description'' = Some JNull) \<and>
   (written_by_detector (run_change_detection fnmatch cfg config_path base head files) doc \<longrightarrow>
      check_resources (get_or (doc_affected_resources doc) []) [] = [] \<and>
      (\<forall>w\<in>set (snd (snd (validate_change_impact doc strict))).
         take 16 w \<noteq> ''Resource missing'') \<and>
      (\<forall>w\<in>set (snd (snd (validate_change_impact (prepare_change_metadata doc cm) strict))).
         take 16 w \<noteq> ''Resource missing''))"
proof (intro conjI impI)
  show "\<forall>r\<in>set (affected_resources (run_change_detection fnmatch cfg config_path base head files)).
      map fst r =
        [''file'', ''mapping'', ''resource_type'', ''impact_level'', ''target_stack'',
         ''description'']"
    using run_entries resource_entry_keys by metis
  show "map_of (resource_entry f key rule) ''resource_type'' = Some JNull"
    if "rule_resource_type rule = None"
    using that by (simp add: resource_entry_def json_of_opt_def)
  show "map_of (resource_entry f key rule) ''impact_level'' = Some JNull"
    if "rule_impact_level rule = None"
    using that by (simp add: resource_entry_def json_of_opt_def)
  show "map_of (resource_entry f key rule) ''target_stack'' = Some JNull"
    if "rule_target_stack rule = None"
    using that by (simp add: resource_entry_def json_of_opt_def)
  show "map_of (resource_entry f key rule) ''description'' = Some JNull"
    if "rule_description rule = None"
    using that by (simp add: resource_entry_def json_of_opt_def)
next
  assume w: "written_by_detector (run_change_detection fnmatch cfg config_path base head files) doc"
  have "map_of r ''resource_type'' \<noteq> None \<and> map_of r ''impact_level'' \<noteq> None"
    if h: "r \<in> set (affected_resources (run_change_detection fnmatch cfg config_path base head files))"
    for r
  proof -
    obtain g key rule where "r = resource_entry g key rule"
      using run_entries [OF h] by blast
    then show ?thesis by (simp add: resource_entry_def)
  qed
  then have c: "\<forall>r\<in>set (get_or (doc_affected_resources doc) []).
      map_of r ''resource_type'' \<noteq> None \<and> map_of r ''impact_level'' \<noteq> None"
    by (simp add: written_resources [OF w] get_or_def)
  then have c': "\<forall>r\<in>set (get_or (doc_affected_resources (prepare_change_metadata doc cm)) []).
      map_of r ''resource_type'' \<noteq> None \<and> map_of r ''impact_level'' \<noteq> None"
    by (simp add: prepare_keeps_resources)
  show "check_resources (get_or (doc_affected_resources doc) []) [] = []"
    using c by (rule check_resources_complete)
  show "\<forall>w\<in>set (snd (snd (validate_change_impact doc strict))).
         take 16 w \<noteq> ''Resource missing''"
    using no_missing_warning [OF c] by blast
  show "\<forall>w\<in>set (snd (snd (validate_change_impact (prepare_change_metadata doc cm) strict))).
         take 16 w \<noteq> ''Resource missing''"
    using no_missing_warning [OF c'] by blast
qed

theorem detector_entries_complete_witness:
  "written_by_detector (example_run [''db/schema.sql'']) schema_dump \<and>
   map (\<lambda>r. map_of r ''resource_type'') (affected_resources (example_run [''db/schema.sql''])) =
     [Some JNull] \<and>
   check_resources (get_or (doc_affected_resources schema_dump) []) [] = [] \<and>
   validate_change_impact schema_dump True = (True, [], [])"
proof -
  have m: "affected_mappings (example_run [''db/schema.sql'']) = {''db-schema''}"
    by (simp add: example_defs)
  have a: "required_actions (example_run [''db/schema.sql'']) = {}"
    by (simp add: example_defs)
  have w: "written_by_detector (example_run [''db/schema.sql'']) schema_dump"
    using m [symmetric] a [symmetric]
    by (simp add: written_by_detector_def schema_dump_def dump_metadata_def)
  have r: "map (\<lambda>r. map_of r ''resource_type'')
      (affected_resources (example_run [''db/schema.sql''])) = [Some JNull]"
    by (simp add: example_defs)
  have c: "written_by_detector (example_run [''db/schema.sql'']) schema_dump \<and>
     map (\<lambda>r. map_of r ''resource_type'') (affected_resources (example_run [''db/schema.sql''])) =
       [Some JNull] \<and>
     check_resources (get_or (doc_affected_resources schema_dump) []) [] = []"
    using detector_entries_complete [where fnmatch = glob and cfg = example_config
        and config_path = "''config/change-detection-config.yaml''" and base = "''main''"
        and head = "''HEAD''" and files = "[''db/schema.sql'']" and doc = schema_dump
        and strict = True]
      w r
    unfolding example_run_def by blast
  have v: "validate_change_impact schema_dump True = (True, [], [])"
    unfolding validate_change_impact_def
    by (simp add: schema_dump_def dump_metadata_def example_defs Let_def check_fields_def
        check_coverage_def check_checklist_def check_enhanced_def check_critical_def get_or_def
        any_value_def check_resource_def is_critical_def)
  from c v show ?thesis by simp
qed

subsection \<open>Enhancer\<close>

lemma build_conditions_append:
  "build_conditions cm (xs @ ys) acc = build_conditions cm ys (build_conditions cm xs acc)"
  by (induction xs arbitrary: acc) (auto split: option.splits)

lemma build_conditions_untouched:
  "\<forall>p\<in>set dc. cm (fst p) \<noteq> Some c \<Longrightarrow> map_of (build_conditions cm dc acc) c = map_of acc c"
  by (induction dc arbitrary: acc) (auto simp: update_conv' split: option.splits)

lemma build_conditions_keys:
  "fst ` set (build_conditions cm dc acc) =
     fst ` set acc \<union> {c. c \<noteq> [] \<and> (\<exists>p\<in>set dc. cm (fst p) = Some c)}"
proof (induction dc arbitrary: acc)
  case Nil
  show ?case by simp
next
  case (Cons p dc)
  obtain k v where p: "p = (k, v)" by (cases p)
  show ?case
  proof (cases "cm k")
    case None
    with p Cons.IH [of acc] show ?thesis by auto
  next
    case (Some c)
    show ?thesis
    proof (cases "c = []")
      case True
      with p Some Cons.IH [of acc] show ?thesis by auto
    next
      case False
      with p Some Cons.IH [of "AList.update c v acc"] show ?thesis
        by (auto simp: dom_update)
    qed
  qed
qed

lemma build_conditions_last_wins:
  assumes "cm k = Some c" and "c \<noteq> []" and "\<forall>p\<in>set after. cm (fst p) \<noteq> Some c"
  shows "map_of (build_conditions cm (before @ (k, flag) # after) acc) c = Some flag"
proof -
  have "build_conditions cm (before @ (k, flag) # after) acc =
        build_conditions cm after (AList.update c flag (build_conditions cm before acc))"
    using assms(1,2) by (simp add: build_conditions_append)
  then show ?thesis
    using build_conditions_untouched [OF assms(3)] by (simp add: update_conv')
qed

lemma composite_conditions_map_of:
  "map_of (composite_conditions dc conds) c =
     (if c = ''DeployApplicationStack'' \<and> map_of dc ''application'' \<noteq> None
      then map_of dc ''application'' else map_of conds c)"
  by (auto simp: composite_conditions_def update_conv' split: option.splits)

lemma composite_conditions_keys:
  "fst ` set (composite_conditions dc conds) =
     fst ` set conds \<union>
     (if ''application'' \<in> fst ` set dc then {''DeployApplicationStack''} else {})"
  by (auto simp: composite_conditions_def dom_update map_of_eq_None_iff split: option.splits)
    (metis fst_conv image_eqI map_of_eq_None_iff option.distinct(1))

text \<open>
  C2, as the code has it. The loop goes through the checklist in order and assigns
  \<open>conditions[c] = flag\<close> when the condition mapping gives the key a non-empty name
  \<open>c\<close>; a key with no entry or with an empty name adds nothing, and a later assignment
  to the same name replaces an earlier one. After the loop, when \<open>application\<close> is a
  checklist key, \<open>DeployApplicationStack\<close> is set to its flag, whatever the condition
  mapping says. So the keys of the result are the non-empty names mapped from checklist
  keys, plus \<open>DeployApplicationStack\<close> when \<open>application\<close> is a checklist key; a
  pair whose name no later pair and no composite assigns again holds its flag; and the
  checklist \<open>{application: true}\<close> with no mapping entry for \<open>application\<close> yields
  exactly \<open>{DeployApplicationStack: true}\<close>.
\<close>

theorem conditions_from_checklist:
  "doc_cloudformation_conditions (prepare_change_metadata metadata cm) =
     Some (derive_conditions cm (get_or (doc_deployment_checklist metadata) [])) \<and>
   fst ` set (derive_conditions cm checklist) =
     {c. c \<noteq> [] \<and> (\<exists>p\<in>set checklist. cm (fst p) = Some c)} \<union>
     (if ''application'' \<in> fst ` set checklist then {''DeployApplicationStack''} else {}) \<and>
   (checklist = before @ (k, flag) # after \<and> cm k = Some c \<and> c \<noteq> [] \<and>
    (\<forall>p\<in>set after. cm (fst p) \<noteq> Some c) \<and>
    \<not> (c = ''DeployApplicationStack'' \<and> ''application'' \<in> fst ` set checklist) \<longrightarrow>
      map_of (derive_conditions cm checklist) c = Some flag) \<and>
   (map_of checklist ''application'' = Some flag \<longrightarrow>
      map_of (derive_conditions cm checklist) ''DeployApplicationStack'' = Some flag) \<and>
   (cm ''application'' = None \<longrightarrow>
      derive_conditions cm [(''application'', True)] = [(''DeployApplicationStack'', True)])"
proof (intro conjI impI)
  show "doc_cloudformation_conditions (prepare_change_metadata metadata cm) =
     Some (derive_conditions cm (get_or (doc_deployment_checklist metadata) []))"
    by (simp add: prepare_change_metadata_def Let_def)
  show "fst ` set (derive_conditions cm checklist) =
     {c. c \<noteq> [] \<and> (\<exists>p\<in>set checklist. cm (fst p) = Some c)} \<union>
     (if ''application'' \<in> fst ` set checklist then {''DeployApplicationStack''} else {})"
    unfolding derive_conditions_def composite_conditions_keys build_conditions_keys by simp
  show "map_of (derive_conditions cm checklist) ''DeployApplicationStack'' = Some flag"
    if "map_of checklist ''application'' = Some flag"
    using that by (simp add: derive_conditions_def composite_conditions_map_of)
  show "derive_conditions cm [(''application'', True)] = [(''DeployApplicationStack'', True)]"
    if "cm ''application'' = None"
    using that by (simp add: derive_conditions_def composite_conditions_def)
next
  assume h: "checklist = before @ (k, flag) # after \<and> cm k = Some c \<and> c \<noteq> [] \<and>
    (\<forall>p\<in>set after. cm (fst p) \<noteq> Some c) \<and>
    \<not> (c = ''DeployApplicationStack'' \<and> ''application'' \<in> fst ` set checklist)"
  then have b: "map_of (build_conditions cm checklist []) c = Some flag"
    using build_conditions_last_wins [of cm k c after before flag "[]"] by blast
  have "\<not> (c = ''DeployApplicationStack'' \<and> map_of checklist ''application'' \<noteq> None)"
    using h by (auto simp: map_of_eq_None_iff)
  then show "map_of (derive_conditions cm checklist) c = Some flag"
    using b by (auto simp: derive_conditions_def composite_conditions_map_of)
qed

theorem conditions_from_checklist_witness:
  "map_of (derive_conditions (cloudFormationConditionMapping example_config)
      [(''infrastructure'', True), (''application'', False)]) ''DeployInfrastructure'' = Some True \<and>
   derive_conditions (cloudFormationConditionMapping example_config)
      [(''infrastructure'', True), (''application'', False)] =
     [(''DeployInfrastructure'', True), (''DeployApplicationStack'', False)] \<and>
   derive_conditions Map.empty [(''application'', True)] = [(''DeployApplicationStack'', True)]"
proof -
  have a: "map_of (derive_conditions (cloudFormationConditionMapping example_config)
      [(''infrastructure'', True), (''application'', False)]) ''DeployInfrastructure'' = Some True"
    using conditions_from_checklist [where cm = "cloudFormationConditionMapping example_config"
        and checklist = "[(''infrastructure'', True), (''application'', False)]"
        and before = "[]" and k = "''infrastructure''" and flag = True
        and after = "[(''application'', False)]" and c = "''DeployInfrastructure''"]
    by (simp add: example_config_def)
  have b: "derive_conditions Map.empty [(''application'', True)] =
      [(''DeployApplicationStack'', True)]"
    using conditions_from_checklist [where cm = Map.empty] by simp
  have c: "derive_conditions (cloudFormationConditionMapping example_config)
      [(''infrastructure'', True), (''application'', False)] =
     [(''DeployInfrastructure'', True), (''DeployApplicationStack'', False)]"
    by (simp add: derive_conditions_def composite_conditions_def example_config_def)
  from a b c show ?thesis by simp
qed

text \<open>
  The claim C2 as it is written fails on this input: the condition mapping has an entry
  for the checklist key \<open>infrastructure\<close>, namely the empty name, and the result has
  no condition under that name; it is empty.
\<close>

theorem conditions_from_checklist_counterexample:
  "doc_deployment_checklist infrastructure_document = Some [(''infrastructure'', True)] \<and>
   blank_name_mapping ''infrastructure'' = Some '''' \<and>
   doc_cloudformation_conditions (prepare_change_metadata infrastructure_document blank_name_mapping) =
     Some [] \<and>
   map_of (derive_conditions blank_name_mapping [(''infrastructure'', True)]) '''' \<noteq> Some True"
  by (simp add: infrastructure_document_def empty_document_def blank_name_mapping_def
      prepare_change_metadata_def Let_def derive_conditions_def composite_conditions_def
      get_or_def)

text \<open>
  C9. \<open>prepare_change_metadata\<close> leaves \<open>deployment_checklist\<close> and
  \<open>affected_resources\<close> as they are, and what it writes is computed from those two
  alone, not from a \<open>cloudformation_conditions\<close> value already in the document. So
  running it on its own output changes nothing: \<open>cloudformation_conditions\<close>,
  \<open>has_affected_resources\<close>, \<open>has_deployments\<close> and \<open>is_valid\<close> come out the same,
  and so does the whole document.
\<close>

theorem prepare_idempotent:
  "doc_deployment_checklist (prepare_change_metadata metadata cm) =
     doc_deployment_checklist metadata \<and>
   doc_affected_resources (prepare_change_metadata metadata cm) =
     doc_affected_resources metadata \<and>
   doc_cloudformation_conditions (prepare_change_metadata (prepare_change_metadata metadata cm) cm) =
     doc_cloudformation_conditions (prepare_change_metadata metadata cm) \<and>
   doc_has_affected_resources (prepare_change_metadata (prepare_change_metadata metadata cm) cm) =
     doc_has_affected_resources (prepare_change_metadata metadata cm) \<and>
   doc_has_deployments (prepare_change_metadata (prepare_change_metadata metadata cm) cm) =
     doc_has_deployments (prepare_change_metadata metadata cm) \<and>
   doc_is_valid (prepare_change_metadata (prepare_change_metadata metadata cm) cm) =
     doc_is_valid (prepare_change_metadata metadata cm) \<and>
   prepare_change_metadata (prepare_change_metadata metadata cm) cm =
     prepare_change_metadata metadata cm \<and>
   prepare_change_metadata (metadata\<lparr>doc_cloudformation_conditions := seeded\<rparr>) cm =
     prepare_change_metadata metadata cm"
  by (simp add: prepare_change_metadata_def Let_def)

theorem prepare_idempotent_witness:
  "doc_cloudformation_conditions
     (prepare_change_metadata
        (prepare_change_metadata critical_document (cloudFormationConditionMapping example_config))
        (cloudFormationConditionMapping example_config)) =
     Some [(''DeployApplicationStack'', True)] \<and>
   doc_is_valid
     (prepare_change_metadata
        (prepare_change_metadata critical_document (cloudFormationConditionMapping example_config))
        (cloudFormationConditionMapping example_config)) = Some True"
proof -
  have "doc_cloudformation_conditions
          (prepare_change_metadata critical_document (cloudFormationConditionMapping example_config)) =
        Some [(''DeployApplicationStack'', True)]"
    by (simp add: prepare_change_metadata_def Let_def critical_document_def empty_document_def
        get_or_def derive_conditions_def composite_conditions_def example_config_def)
  moreover have "doc_is_valid
          (prepare_change_metadata critical_document (cloudFormationConditionMapping example_config)) =
        Some True"
    by (simp add: prepare_change_metadata_def Let_def critical_document_def empty_document_def
        get_or_def any_value_def)
  ultimately show ?thesis
    using prepare_idempotent [of critical_document "cloudFormationConditionMapping example_config"]
    by simp
qed

end
